theory Spec2Isabelle
  imports Complex_Main
begin

section \<open>Python values\<close>

text \<open>
  The two predictors of the repository (\<^verbatim>\<open>app/ml/predictor_simple.py\<close> and
  \<^verbatim>\<open>app/ml/predictor.py\<close>) work on dictionaries with string keys, on Python
  integers and on Python floats. Integers are \<^typ>\<open>int\<close>. Floats are idealised as
  \<^typ>\<open>real\<close>: every comparison against a threshold and every clamp is the one of the
  source, rounding is not modelled. A dictionary is a partial map from its keys, and
  \<^verbatim>\<open>d.get(k, default)\<close> is \<open>dict_get\<close>.
\<close>

datatype error = ValueError string | ZeroDivisionError | OverflowError | TypeError

type_synonym 'v dict = "string \<rightharpoonup> 'v"

definition dict_get :: "'v dict \<Rightarrow> string \<Rightarrow> 'v \<Rightarrow> 'v" where
  "dict_get d k dflt = (case d k of None \<Rightarrow> dflt | Some v \<Rightarrow> v)"

text \<open>Python's \<^verbatim>\<open>a / b\<close> raises \<^verbatim>\<open>ZeroDivisionError\<close> when \<^verbatim>\<open>b\<close> is zero.\<close>

definition truediv :: "real \<Rightarrow> real \<Rightarrow> error + real" where
  "truediv a b = (if b = 0 then Inl ZeroDivisionError else Inr (a / b))"

text \<open>
  Where a claim is about whether a division can fail, the range of floats counts as
  well. Python's \<^verbatim>\<open>a / b\<close> on two integers rounds the exact quotient to the nearest
  float and raises \<^verbatim>\<open>OverflowError\<close> when that is beyond the largest float, which
  is the case from \<open>2^1024 - 2^970\<close> on, halfway between the largest float
  \<open>2^1024 - 2^971\<close> and \<open>2^1024\<close>. The value returned is still idealised as the
  exact quotient.
\<close>

definition float_overflow :: real where
  "float_overflow = 2 ^ 1024 - 2 ^ 970"

definition int_truediv :: "int \<Rightarrow> int \<Rightarrow> error + real" where
  "int_truediv a b =
     (if b = 0 then Inl ZeroDivisionError
      else if float_overflow \<le> \<bar>of_int a / of_int b\<bar> then Inl OverflowError
      else Inr (of_int a / of_int b))"

subsection \<open>The ambient random source\<close>

text \<open>
  The module \<^verbatim>\<open>random\<close> is global state. It is modelled as the stream of the unit
  draws it will hand out, in call order: \<^verbatim>\<open>random.random()\<close> takes the head of the
  stream, a float in \<open>[0, 1)\<close>, and leaves the tail. \<^verbatim>\<open>random.uniform(a, b)\<close> is
  \<^verbatim>\<open>a + (b - a) * random()\<close> as in the standard library; \<^verbatim>\<open>randint\<close> and
  \<^verbatim>\<open>choice\<close> scale one draw to the requested range.
\<close>

type_synonym rng = "nat \<Rightarrow> real"

definition random_random :: "rng \<Rightarrow> real \<times> rng" where
  "random_random g = (g 0, \<lambda>n. g (Suc n))"

definition random_uniform :: "real \<Rightarrow> real \<Rightarrow> rng \<Rightarrow> real \<times> rng" where
  "random_uniform a b g = (case random_random g of (u, g') \<Rightarrow> (a + (b - a) * u, g'))"

definition random_randint :: "int \<Rightarrow> int \<Rightarrow> rng \<Rightarrow> int \<times> rng" where
  "random_randint a b g =
     (case random_random g of (u, g') \<Rightarrow> (a + \<lfloor>u * of_int (b - a + 1)\<rfloor>, g'))"

definition random_choice :: "'a list \<Rightarrow> rng \<Rightarrow> 'a \<times> rng" where
  "random_choice xs g =
     (case random_random g of (u, g') \<Rightarrow> (xs ! nat \<lfloor>u * of_nat (length xs)\<rfloor>, g'))"

section \<open>Results of a prediction\<close>

text \<open>
  Both predictors return dictionaries with fixed keys; the keys are the fields below.
  \<^verbatim>\<open>timestamp\<close> is \<^verbatim>\<open>datetime.utcnow().isoformat()\<close>: the clock is an argument
  \<open>now\<close> of the entry points. \<^verbatim>\<open>influencing_factors\<close> keeps the insertion order of
  the dictionary literal that builds it.
\<close>

record prediction_base =
  win_probability :: real
  confidence :: real
  model_version :: string
  recommendations :: "string list"
  timestamp :: string

record 'f prediction = prediction_base +
  input_features :: 'f
  influencing_factors :: "(string \<times> real) list"

record battle_state =
  battle_time_remaining :: int
  player_towers :: int
  opponent_towers :: int
  elixir_advantage :: int
  current_phase :: string

record live_prediction = prediction_base +
  battle_analysis :: battle_state

record simple_features =
  player_trophies :: int
  win_rate :: real
  trophy_factor :: real

section \<open>The simple predictor: \<^verbatim>\<open>predictor_simple.WinPredictor\<close>\<close>

record predictor_state =
  self_model_version :: string
  is_ready :: bool
  confidence_threshold :: real

definition init_simple :: predictor_state where
  "init_simple =
     \<lparr>self_model_version = ''1.0.0-simple'', is_ready = True, confidence_threshold = 0.7\<rparr>"

definition initialize_simple :: "predictor_state \<Rightarrow> predictor_state" where
  "initialize_simple self = self\<lparr>is_ready := True\<rparr>"

definition determine_battle_phase_simple :: "int \<Rightarrow> string" where
  "determine_battle_phase_simple time_remaining =
     (if time_remaining > 120 then ''early_game''
      else if time_remaining > 60 then ''mid_game''
      else if time_remaining > 0 then ''late_game''
      else ''overtime'')"

definition extra_recommendations :: "string list" where
  "extra_recommendations =
     [''Cycle to your win condition'',
      ''Defend and counter-attack'',
      ''Build a strong push'',
      ''Use spells for maximum value'',
      ''Protect your towers'']"

definition generate_recommendations_simple ::
    "real \<Rightarrow> int dict \<Rightarrow> rng \<Rightarrow> string list \<times> rng" where
  "generate_recommendations_simple p player_data g =
     (let recs =
        (if p < 0.4 then
           [''Focus on defensive plays'',
            ''Look for positive elixir trades'',
            ''Play more conservatively'']
         else if p > 0.7 then
           [''Maintain aggressive pressure'',
            ''Look for tower damage opportunities'',
            ''Keep up the momentum'']
         else
           [''Adapt to opponent's strategy'',
            ''Monitor elixir carefully'',
            ''Stay flexible with your approach''])
      in case random_choice extra_recommendations g of
           (extra, g') \<Rightarrow> (take 3 (recs @ [extra]), g'))"

definition generate_live_recommendations_simple :: "real \<Rightarrow> int dict \<Rightarrow> string list" where
  "generate_live_recommendations_simple p battle_data =
     (let time_remaining = dict_get battle_data ''time_remaining'' 180
      in [if time_remaining > 120 then ''Learn opponent's deck rotation''
          else if time_remaining > 60 then ''Build your main push''
          else ''Go for decisive plays'']
         @ [if p > 0.6 then ''Maintain pressure'' else ''Focus on defense'']
         @ [''Watch your elixir management''])"

text \<open>
  \<^verbatim>\<open>predict\<close> of the simple predictor. The draws are taken in the order of the source:
  the noise of the probability, the confidence, three factors, (the fourth factor is the
  win rate), the fifth factor, and the choice inside \<^verbatim>\<open>_generate_recommendations\<close>.
\<close>

definition predict_simple ::
    "predictor_state \<Rightarrow> int dict \<Rightarrow> int dict option \<Rightarrow> int dict option \<Rightarrow> string \<Rightarrow> rng
       \<Rightarrow> error + (simple_features prediction \<times> rng)" where
  "predict_simple self player_data opponent_data battle_context now g =
     (if \<not> is_ready self then Inl (ValueError ''Model not ready'')
      else
        let trophies = dict_get player_data ''trophies'' 0;
            player_wins = dict_get player_data ''wins'' 0;
            player_losses = dict_get player_data ''losses'' 0
        in case truediv (of_int player_wins) (of_int (max 1 (player_wins + player_losses))) of
             Inl e \<Rightarrow> Inl e
           | Inr wr \<Rightarrow>
               let tf = min 1.0 (of_int trophies / 6000);
                   base_probability = wr * 0.6 + tf * 0.4
               in case random_random g of (r1, g1) \<Rightarrow>
                  let p = max 0.1 (min 0.9 (base_probability + (r1 - 0.5) * 0.3))
                  in case random_random g1 of (r2, g2) \<Rightarrow>
                     let conf = 0.6 + r2 * 0.3
                     in case random_uniform 0.3 0.9 g2 of (f1, g3) \<Rightarrow>
                        case random_uniform 0.4 0.8 g3 of (f2, g4) \<Rightarrow>
                        case random_uniform 0.2 0.7 g4 of (f3, g5) \<Rightarrow>
                        case random_uniform 0.3 0.8 g5 of (f5, g6) \<Rightarrow>
                        case generate_recommendations_simple p player_data g6 of (recs, g7) \<Rightarrow>
                          Inr (\<lparr>win_probability = p,
                                confidence = conf,
                                model_version = self_model_version self,
                                recommendations = recs,
                                timestamp = now,
                                input_features =
                                  \<lparr>player_trophies = trophies, win_rate = wr, trophy_factor = tf\<rparr>,
                                influencing_factors =
                                  [(''deck_synergy'', f1),
                                   (''elixir_efficiency'', f2),
                                   (''opponent_counter'', f3),
                                   (''player_skill'', wr),
                                   (''recent_performance'', f5)]\<rparr>, g7))"

text \<open>
  The feature computations of \<^verbatim>\<open>predict\<close> on their own (the assignments to
  \<^verbatim>\<open>player_trophies\<close>, \<^verbatim>\<open>win_rate\<close> and \<^verbatim>\<open>trophy_factor\<close>), with the two
  integer divisions as the steps that can fail; an exception leaves \<^verbatim>\<open>predict\<close>
  through its \<^verbatim>\<open>except\<close> clause, which raises it again.
\<close>

definition player_features :: "int dict \<Rightarrow> error + simple_features" where
  "player_features player_data =
     (let trophies = dict_get player_data ''trophies'' 0;
          player_wins = dict_get player_data ''wins'' 0;
          player_losses = dict_get player_data ''losses'' 0
      in case int_truediv player_wins (max 1 (player_wins + player_losses)) of
           Inl e \<Rightarrow> Inl e
         | Inr wr \<Rightarrow>
             (case int_truediv trophies 6000 of
                Inl e \<Rightarrow> Inl e
              | Inr q \<Rightarrow>
                  Inr \<lparr>player_trophies = trophies, win_rate = wr, trophy_factor = min 1.0 q\<rparr>))"

text \<open>
  \<^verbatim>\<open>predict_live\<close> of the simple predictor: no readiness check, three draws
  (probability, confidence, elixir advantage).
\<close>

definition predict_live_simple ::
    "predictor_state \<Rightarrow> string \<Rightarrow> int dict \<Rightarrow> string \<Rightarrow> rng \<Rightarrow> error + (live_prediction \<times> rng)" where
  "predict_live_simple self player_tag battle_data now g =
     (case random_random g of (r1, g1) \<Rightarrow>
      let p = 0.5 + (r1 - 0.5) * 0.6
      in case random_random g1 of (r2, g2) \<Rightarrow>
         let conf = 0.6 + r2 * 0.3
         in case random_randint (- 2) 2 g2 of (adv, g3) \<Rightarrow>
            let analysis =
                  \<lparr>battle_time_remaining = dict_get battle_data ''time_remaining'' 180,
                   player_towers = dict_get battle_data ''player_towers'' 3,
                   opponent_towers = dict_get battle_data ''opponent_towers'' 3,
                   elixir_advantage = adv,
                   current_phase =
                     determine_battle_phase_simple (dict_get battle_data ''time_remaining'' 180)\<rparr>;
                recs = generate_live_recommendations_simple p battle_data
            in Inr (\<lparr>win_probability = p,
                     confidence = conf,
                     model_version = self_model_version self,
                     recommendations = recs,
                     timestamp = now,
                     battle_analysis = analysis\<rparr>, g3))"

section \<open>The learned-model predictor: \<^verbatim>\<open>predictor.WinPredictor\<close>\<close>

text \<open>
  The feature engineer (\<^verbatim>\<open>app.ml.feature_engineering\<close>) and the network
  (\<^verbatim>\<open>app.ml.model_architecture\<close>) are not part of the sources at hand; the predictor
  holds them as attributes, and so does the model: they are fields of the predictor's
  state, arbitrary functions. The network maps the input tensor (batch, sequence,
  features) to the scalar \<^verbatim>\<open>prediction_raw[0][0]\<close>. Before \<^verbatim>\<open>initialize\<close> the
  attribute \<^verbatim>\<open>model\<close> is \<^verbatim>\<open>None\<close>, and calling it is a \<^verbatim>\<open>TypeError\<close>.
\<close>

record FeatureEngineer =
  extract_features :: "int dict \<Rightarrow> int dict option \<Rightarrow> int dict option \<Rightarrow> real dict"
  extract_live_features :: "string \<Rightarrow> int dict \<Rightarrow> real dict"
  features_to_vector :: "real dict \<Rightarrow> real list"

type_synonym TransformerLSTMModel = "real list list list \<Rightarrow> real"

record win_predictor = predictor_state +
  model :: "TransformerLSTMModel option"
  feature_engineer :: FeatureEngineer

definition init :: "real \<Rightarrow> FeatureEngineer \<Rightarrow> win_predictor" where
  "init threshold fe =
     \<lparr>self_model_version = ''1.0.0'', is_ready = False, confidence_threshold = threshold,
      model = None, feature_engineer = fe\<rparr>"

text \<open>
  \<^verbatim>\<open>initialize\<close> loads or creates the network; \<open>loaded\<close> is what that step produced,
  \<open>None\<close> when it raised. Only a successful step marks the predictor ready.
\<close>

definition initialize :: "TransformerLSTMModel option \<Rightarrow> win_predictor \<Rightarrow> win_predictor" where
  "initialize loaded self =
     (case loaded of
        Some m \<Rightarrow> self\<lparr>model := Some m, is_ready := True\<rparr>
      | None \<Rightarrow> self\<lparr>is_ready := False\<rparr>)"

definition prepare_model_input :: "win_predictor \<Rightarrow> real dict \<Rightarrow> real list list list" where
  "prepare_model_input self features =
     (let feature_vector = features_to_vector (feature_engineer self) features;
          sequence_input = [feature_vector];
          target_seq_len = 50;
          current_seq_len = length sequence_input
      in if current_seq_len < target_seq_len then
           [sequence_input
              @ replicate (target_seq_len - current_seq_len) (replicate (length feature_vector) 0)]
         else if current_seq_len > target_seq_len then [take target_seq_len sequence_input]
         else [sequence_input])"

definition calculate_confidence :: "real \<Rightarrow> real" where
  "calculate_confidence prob = (let c = 2 * \<bar>prob - 0.5\<bar> in min 1.0 (max 0.0 c))"

text \<open>
  \<^verbatim>\<open>_analyze_influencing_factors\<close>: the body of the \<^verbatim>\<open>try\<close> first, with the division
  of the dictionary comprehension as the fallible step, then the \<^verbatim>\<open>except\<close> clause
  that turns any exception into the empty dictionary.
\<close>

fun normalize_items :: "real \<Rightarrow> (string \<times> real) list \<Rightarrow> error + (string \<times> real) list" where
  "normalize_items t [] = Inr []"
| "normalize_items t ((k, v) # kvs) =
     (case truediv v t of
        Inl e \<Rightarrow> Inl e
      | Inr w \<Rightarrow>
          (case normalize_items t kvs of
             Inl e \<Rightarrow> Inl e
           | Inr rest \<Rightarrow> Inr ((k, w) # rest)))"

definition factor_signals :: "real dict \<Rightarrow> (string \<times> real) list" where
  "factor_signals features =
     [(''deck_synergy'', dict_get features ''deck_synergy_score'' 0.0),
      (''elixir_efficiency'', dict_get features ''elixir_efficiency'' 0.0),
      (''opponent_counter'', dict_get features ''opponent_counter_score'' 0.0),
      (''player_skill'', dict_get features ''skill_rating'' 0.0),
      (''recent_performance'', dict_get features ''recent_win_rate'' 0.0)]"

definition analyze_influencing_factors_try :: "real dict \<Rightarrow> error + (string \<times> real) list" where
  "analyze_influencing_factors_try features =
     (let factors = factor_signals features;
          total = sum_list (map (\<lambda>(k, v). \<bar>v\<bar>) factors)
      in if total > 0 then normalize_items total factors else Inr factors)"

definition analyze_influencing_factors :: "real dict \<Rightarrow> (string \<times> real) list" where
  "analyze_influencing_factors features =
     (case analyze_influencing_factors_try features of Inl e \<Rightarrow> [] | Inr factors \<Rightarrow> factors)"

definition generate_recommendations :: "real dict \<Rightarrow> real \<Rightarrow> string list" where
  "generate_recommendations features p =
     (if p < 0.4 then
        [''Consider a more defensive strategy'', ''Focus on positive elixir trades'']
        @ (if dict_get features ''deck_synergy_score'' 0 < 0.5
           then [''Your deck synergy is low - consider card substitutions''] else [])
      else if p > 0.7 then
        [''You have a strong advantage - maintain pressure'',
         ''Look for opportunities to take towers'']
      else
        [''Match is balanced - adapt to opponent's strategy'', ''Monitor elixir carefully''])
     @ (if dict_get features ''average_elixir_cost'' 0 > 4.0
        then [''Heavy deck - be patient with elixir management'']
        else if dict_get features ''average_elixir_cost'' 0 < 3.0
        then [''Fast cycle deck - maintain constant pressure'']
        else [])"

definition determine_battle_phase :: "int dict \<Rightarrow> string" where
  "determine_battle_phase battle_data =
     (let time_remaining = dict_get battle_data ''time_remaining'' 0
      in if time_remaining > 120 then ''early_game''
         else if time_remaining > 60 then ''mid_game''
         else if time_remaining > 0 then ''late_game''
         else ''overtime'')"

definition analyze_battle_state :: "int dict \<Rightarrow> battle_state" where
  "analyze_battle_state battle_data =
     \<lparr>battle_time_remaining = dict_get battle_data ''time_remaining'' 0,
      player_towers = dict_get battle_data ''player_towers'' 3,
      opponent_towers = dict_get battle_data ''opponent_towers'' 3,
      elixir_advantage = dict_get battle_data ''elixir_advantage'' 0,
      current_phase = determine_battle_phase battle_data\<rparr>"

definition generate_live_recommendations :: "real dict \<Rightarrow> real \<Rightarrow> int dict \<Rightarrow> string list" where
  "generate_live_recommendations features p battle_data =
     (let battle_phase = determine_battle_phase battle_data;
          towers_down = 3 - dict_get battle_data ''player_towers'' 3;
          opponent_towers_down = 3 - dict_get battle_data ''opponent_towers'' 3
      in if battle_phase = ''early_game'' then
           [''Focus on learning opponent's deck'', ''Make positive elixir trades'']
         else if battle_phase = ''mid_game'' then
           (if p > 0.6 then [''Build a strong push''] else [''Defend and counter-attack''])
         else if battle_phase = ''late_game'' then
           (if towers_down > opponent_towers_down
            then [''Play defensively - protect your lead'']
            else [''Time for aggressive plays''])
         else if battle_phase = ''overtime'' then
           [''High-risk, high-reward plays'', ''Focus on tower damage'']
         else [])"

definition predict ::
    "win_predictor \<Rightarrow> int dict \<Rightarrow> int dict option \<Rightarrow> int dict option \<Rightarrow> string
       \<Rightarrow> error + (real dict) prediction" where
  "predict self player_data opponent_data battle_context now =
     (if \<not> is_ready self then Inl (ValueError ''Model not ready'')
      else
        let features =
              extract_features (feature_engineer self) player_data opponent_data battle_context;
            model_input = prepare_model_input self features
        in case model self of
             None \<Rightarrow> Inl TypeError
           | Some m \<Rightarrow>
               let prediction_raw = m model_input;
                   p = prediction_raw
               in Inr \<lparr>win_probability = p,
                       confidence = calculate_confidence prediction_raw,
                       model_version = self_model_version self,
                       recommendations = generate_recommendations features p,
                       timestamp = now,
                       input_features = features,
                       influencing_factors = analyze_influencing_factors features\<rparr>)"

definition predict_live ::
    "win_predictor \<Rightarrow> string \<Rightarrow> int dict \<Rightarrow> string \<Rightarrow> error + live_prediction" where
  "predict_live self player_tag battle_data now =
     (if \<not> is_ready self then Inl (ValueError ''Model not ready'')
      else
        let features = extract_live_features (feature_engineer self) player_tag battle_data;
            model_input = prepare_model_input self features
        in case model self of
             None \<Rightarrow> Inl TypeError
           | Some m \<Rightarrow>
               let prediction_raw = m model_input;
                   p = prediction_raw
               in Inr \<lparr>win_probability = p,
                       confidence = calculate_confidence prediction_raw,
                       model_version = self_model_version self,
                       recommendations = generate_live_recommendations features p battle_data,
                       timestamp = now,
                       battle_analysis = analyze_battle_state battle_data\<rparr>)"

section \<open>Player statistics: \<^verbatim>\<open>players_simple.get_player_stats\<close>\<close>

text \<open>
  The endpoint fetches the player from the game-stats service, which is outside the
  sources at hand: \<open>fetched\<close> is what the service returned for the cleaned tag. The
  test \<^verbatim>\<open>if not player_data\<close> answers 404 for \<^verbatim>\<open>None\<close> and for the empty record
  alike. Every exception other than the 404 becomes a 500; the two integer divisions
  are the steps that can raise one.
\<close>

datatype http_error = HTTPException nat

record player_stats =
  stats_player_tag :: string
  stats_win_rate :: real
  total_battles :: int
  skill_rating :: real
  consistency_score :: real
  deck_mastery :: real
  average_elixir_cost :: real

definition get_player_stats :: "string \<Rightarrow> int dict option \<Rightarrow> http_error + player_stats" where
  "get_player_stats clean_tag fetched =
     (case fetched of
        None \<Rightarrow> Inl (HTTPException 404)
      | Some player_data \<Rightarrow>
          (if player_data = Map.empty then Inl (HTTPException 404)
           else
             let wins = dict_get player_data ''wins'' 0;
                 losses = dict_get player_data ''losses'' 0;
                 battles = wins + losses
             in (case int_truediv wins (max 1 battles) of
                   Inl e \<Rightarrow> Inl (HTTPException 500)
                 | Inr wr \<Rightarrow>
                     (case int_truediv (dict_get player_data ''trophies'' 0) 6000 of
                        Inl e \<Rightarrow> Inl (HTTPException 500)
                      | Inr q \<Rightarrow>
                          Inr \<lparr>stats_player_tag = clean_tag,
                               stats_win_rate = wr,
                               total_battles = battles,
                               skill_rating = min 1.0 q,
                               consistency_score = 0.7,
                               deck_mastery = 0.8,
                               average_elixir_cost = 3.8\<rparr>))))"

section \<open>Inputs used in the examples\<close>

text \<open>
  The player of the end-to-end example (70 wins, 30 losses, 5000 trophies), a random
  source that hands out the same draw forever, one that changes its draw from position
  \<open>k\<close> on, and a feature engineer and a network to stand for the absent ones: the
  engineer copies the win rate into \<^verbatim>\<open>skill_rating\<close>, the network answers one half.
\<close>

definition example_player :: "int dict" where
  "example_player = [''wins'' \<mapsto> 70, ''losses'' \<mapsto> 30, ''trophies'' \<mapsto> 5000]"

definition constant_draws :: "real \<Rightarrow> rng" where
  "constant_draws c = (\<lambda>n. c)"

definition switching_draws :: "nat \<Rightarrow> real \<Rightarrow> real \<Rightarrow> rng" where
  "switching_draws k a b = (\<lambda>n. if n < k then a else b)"



section \<open>Battle phases\<close>

lemma determine_battle_phase_eq:
  "determine_battle_phase bd = determine_battle_phase_simple (dict_get bd ''time_remaining'' 0)"
  by (simp add: determine_battle_phase_def determine_battle_phase_simple_def Let_def)

text \<open>
  Claim C3. The phase of a battle is \<^verbatim>\<open>early_game\<close> exactly when more than 120 seconds
  remain, \<^verbatim>\<open>mid_game\<close> exactly when more than 60 and at most 120 remain,
  \<^verbatim>\<open>late_game\<close> exactly when more than 0 and at most 60 remain, and \<^verbatim>\<open>overtime\<close>
  exactly when none remain. The boundaries 120, 60 and 0 fall into \<^verbatim>\<open>mid_game\<close>,
  \<^verbatim>\<open>late_game\<close> and \<^verbatim>\<open>overtime\<close>. The four conditions split the integers, so
  every time has exactly one phase. The learned-model predictor classifies the
  \<^verbatim>\<open>time_remaining\<close> entry of the battle data (0 when absent) in the same way.
\<close>

theorem battle_phase_thresholds:
  "(determine_battle_phase_simple t = ''early_game'' \<longleftrightarrow> t > 120)
   \<and> (determine_battle_phase_simple t = ''mid_game'' \<longleftrightarrow> 60 < t \<and> t \<le> 120)
   \<and> (determine_battle_phase_simple t = ''late_game'' \<longleftrightarrow> 0 < t \<and> t \<le> 60)
   \<and> (determine_battle_phase_simple t = ''overtime'' \<longleftrightarrow> t \<le> 0)
   \<and> determine_battle_phase_simple t \<in> {''early_game'', ''mid_game'', ''late_game'', ''overtime''}
   \<and> distinct [''early_game'', ''mid_game'', ''late_game'', ''overtime'']
   \<and> determine_battle_phase_simple 120 = ''mid_game''
   \<and> determine_battle_phase_simple 60 = ''late_game''
   \<and> determine_battle_phase_simple 0 = ''overtime''
   \<and> determine_battle_phase bd = determine_battle_phase_simple (dict_get bd ''time_remaining'' 0)"
  unfolding determine_battle_phase_eq
  by (simp add: determine_battle_phase_simple_def)

section \<open>The simple predictor: pre-battle prediction\<close>

lemma truediv_max1: "truediv a (of_int (max 1 n)) = Inr (a / of_int (max 1 n))"
proof -
  have "max 1 n \<noteq> 0" by linarith
  then show ?thesis by (simp add: truediv_def)
qed

lemma random_random_simps:
  "fst (random_random g) = g 0" "snd (random_random g) = (\<lambda>n. g (Suc n))"
  by (simp_all add: random_random_def)

lemma random_uniform_simps:
  "fst (random_uniform a b g) = a + (b - a) * g 0"
  "snd (random_uniform a b g) = (\<lambda>n. g (Suc n))"
  by (simp_all add: random_uniform_def random_random_def)

lemma random_choice_snd: "snd (random_choice xs g) = (\<lambda>n. g (Suc n))"
  by (simp add: random_choice_def random_random_def)

lemma generate_recommendations_simple_snd:
  "snd (generate_recommendations_simple p pd g) = (\<lambda>n. g (Suc n))"
  by (simp add: generate_recommendations_simple_def split_def random_choice_snd Let_def)

lemma predict_simple_unfold:
  assumes "is_ready self"
  shows "predict_simple self pd opp ctx now g =
    (let wr = of_int (dict_get pd ''wins'' 0)
            / of_int (max 1 (dict_get pd ''wins'' 0 + dict_get pd ''losses'' 0));
         tf = min 1.0 (of_int (dict_get pd ''trophies'' 0) / 6000);
         p = max 0.1 (min 0.9 (wr * 0.6 + tf * 0.4 + (g 0 - 0.5) * 0.3))
     in Inr (\<lparr>win_probability = p,
          confidence = 0.6 + g (Suc 0) * 0.3,
          model_version = self_model_version self,
          recommendations = fst (generate_recommendations_simple p pd
             (\<lambda>n. g (Suc (Suc (Suc (Suc (Suc (Suc n)))))))),
          timestamp = now,
          input_features = \<lparr>player_trophies = dict_get pd ''trophies'' 0, win_rate = wr,
             trophy_factor = tf\<rparr>,
          influencing_factors =
            [(''deck_synergy'', 0.3 + (0.9 - 0.3) * g (Suc (Suc 0))),
             (''elixir_efficiency'', 0.4 + (0.8 - 0.4) * g (Suc (Suc (Suc 0)))),
             (''opponent_counter'', 0.2 + (0.7 - 0.2) * g (Suc (Suc (Suc (Suc 0))))),
             (''player_skill'', wr),
             (''recent_performance'', 0.3 + (0.8 - 0.3) * g (Suc (Suc (Suc (Suc (Suc 0))))))]\<rparr>,
          \<lambda>n. g (Suc (Suc (Suc (Suc (Suc (Suc (Suc n)))))))))"
  using assms
  unfolding predict_simple_def Let_def split_def truediv_max1 sum.case random_random_simps
    random_uniform_simps generate_recommendations_simple_snd
  by (simp only: not_True_eq_False if_False)


lemma predict_simple_ready:
  assumes "is_ready self"
  shows "\<exists>res. predict_simple self pd opp ctx now g = Inr (res, \<lambda>n. g (n + 7))
      \<and> player_trophies (input_features res) = dict_get pd ''trophies'' 0
      \<and> win_rate (input_features res) =
          of_int (dict_get pd ''wins'' 0)
            / of_int (max 1 (dict_get pd ''wins'' 0 + dict_get pd ''losses'' 0))
      \<and> trophy_factor (input_features res) = min 1 (of_int (dict_get pd ''trophies'' 0) / 6000)
      \<and> win_probability res =
          max 0.1 (min 0.9 (win_rate (input_features res) * 0.6
             + trophy_factor (input_features res) * 0.4 + (g 0 - 0.5) * 0.3))
      \<and> confidence res = 0.6 + g 1 * 0.3
      \<and> model_version res = self_model_version self
      \<and> timestamp res = now
      \<and> recommendations res =
          fst (generate_recommendations_simple (win_probability res) pd (\<lambda>n. g (n + 6)))
      \<and> influencing_factors res =
          [(''deck_synergy'', 0.3 + (0.9 - 0.3) * g 2),
           (''elixir_efficiency'', 0.4 + (0.8 - 0.4) * g 3),
           (''opponent_counter'', 0.2 + (0.7 - 0.2) * g 4),
           (''player_skill'', win_rate (input_features res)),
           (''recent_performance'', 0.3 + (0.8 - 0.3) * g 5)]"
proof -
  have n: "(\<lambda>n. g (n + 7)) = (\<lambda>n. g (Suc (Suc (Suc (Suc (Suc (Suc (Suc n))))))))"
    "(\<lambda>n. g (n + 6)) = (\<lambda>n. g (Suc (Suc (Suc (Suc (Suc (Suc n)))))))"
    "g 1 = g (Suc 0)" "g 2 = g (Suc (Suc 0))" "g 3 = g (Suc (Suc (Suc 0)))"
    "g 4 = g (Suc (Suc (Suc (Suc 0))))" "g 5 = g (Suc (Suc (Suc (Suc (Suc 0)))))"
    by (simp_all add: eval_nat_numeral)
  show ?thesis
    unfolding predict_simple_unfold [OF assms] Let_def n
    by (intro exI conjI) (rule refl | simp only: prediction_base.simps prediction.simps simple_features.simps)+
qed


lemma predict_simple_not_ready:
  "\<not> is_ready self \<Longrightarrow>
     predict_simple self pd opp ctx now g = Inl (ValueError ''Model not ready'')"
  by (simp add: predict_simple_def)

lemma generate_recommendations_simple_fst:
  "fst (generate_recommendations_simple p pd g) =
     (if p < 0.4 then
        [''Focus on defensive plays'', ''Look for positive elixir trades'',
         ''Play more conservatively'']
      else if p > 0.7 then
        [''Maintain aggressive pressure'', ''Look for tower damage opportunities'',
         ''Keep up the momentum'']
      else
        [''Adapt to opponent's strategy'', ''Monitor elixir carefully'',
         ''Stay flexible with your approach''])"
  by (simp add: generate_recommendations_simple_def split_def)

lemma maintain_pressure_iff:
  "''Maintain aggressive pressure'' \<in> set (fst (generate_recommendations_simple p pd g))
     \<longleftrightarrow> p > 0.7"
  unfolding generate_recommendations_simple_fst by simp

lemma example_player_get:
  "dict_get example_player ''wins'' 0 = 70"
  "dict_get example_player ''losses'' 0 = 30"
  "dict_get example_player ''trophies'' 0 = 5000"
  by (simp_all add: example_player_def dict_get_def)

lemma predict_simple_example:
  "\<exists>res. predict_simple init_simple example_player opp ctx now (constant_draws c)
            = Inr (res, constant_draws c)
      \<and> win_rate (input_features res) = 7 / 10
      \<and> trophy_factor (input_features res) = 5 / 6
      \<and> win_probability res = max (1 / 10) (min (9 / 10) (113 / 150 + (c - 1 / 2) * (3 / 10)))
      \<and> confidence res = 6 / 10 + c * (3 / 10)
      \<and> recommendations res = fst (generate_recommendations_simple (win_probability res)
            example_player (constant_draws c))
      \<and> influencing_factors res =
          [(''deck_synergy'', 3 / 10 + 6 / 10 * c),
           (''elixir_efficiency'', 4 / 10 + 4 / 10 * c),
           (''opponent_counter'', 2 / 10 + 5 / 10 * c),
           (''player_skill'', 7 / 10),
           (''recent_performance'', 3 / 10 + 5 / 10 * c)]"
proof -
  have r: "is_ready init_simple" by (simp add: init_simple_def)
  have c: "(\<lambda>n. constant_draws c (n + k)) = constant_draws c" for k
    by (simp add: constant_draws_def)
  from predict_simple_ready [OF r, of example_player opp ctx now "constant_draws c"]
  obtain res where res:
    "predict_simple init_simple example_player opp ctx now (constant_draws c)
       = Inr (res, constant_draws c)"
    "win_rate (input_features res) = 70 / of_int (max 1 (70 + 30))"
    "trophy_factor (input_features res) = min 1 (5000 / 6000)"
    "win_probability res =
          max 0.1 (min 0.9 (win_rate (input_features res) * 0.6
             + trophy_factor (input_features res) * 0.4 + (c - 0.5) * 0.3))"
    "confidence res = 0.6 + c * 0.3"
    "recommendations res = fst (generate_recommendations_simple (win_probability res)
            example_player (constant_draws c))"
    "influencing_factors res =
          [(''deck_synergy'', 0.3 + (0.9 - 0.3) * c),
           (''elixir_efficiency'', 0.4 + (0.8 - 0.4) * c),
           (''opponent_counter'', 0.2 + (0.7 - 0.2) * c),
           (''player_skill'', win_rate (input_features res)),
           (''recent_performance'', 0.3 + (0.8 - 0.3) * c)]"
    unfolding c example_player_get by (auto simp: constant_draws_def)
  have wr: "win_rate (input_features res) = 7 / 10" using res(2) by simp
  have tf: "trophy_factor (input_features res) = 5 / 6" using res(3) by simp
  have p: "win_probability res = max (1 / 10) (min (9 / 10) (113 / 150 + (c - 1 / 2) * (3 / 10)))"
    unfolding res(4) wr tf by simp
  show ?thesis
    using res(1) wr tf p res(5) res(6) res(7) by simp
qed



lemma predict_simple_example_probability:
  "map_sum id (win_probability \<circ> fst)
     (predict_simple init_simple example_player opp ctx now (constant_draws c))
   = Inr (max (1 / 10) (min (9 / 10) (113 / 150 + (c - 1 / 2) * (3 / 10))))"
  using predict_simple_example [of opp ctx now c] by auto




lemma predict_simple_probability_eq:
  "map_sum id (win_probability \<circ> fst) (predict_simple self pd opp ctx now g) =
     (if is_ready self then
        Inr (max 0.1 (min 0.9
          (of_int (dict_get pd ''wins'' 0)
             / of_int (max 1 (dict_get pd ''wins'' 0 + dict_get pd ''losses'' 0)) * 0.6
           + min 1 (of_int (dict_get pd ''trophies'' 0) / 6000) * 0.4 + (g 0 - 0.5) * 0.3)))
      else Inl (ValueError ''Model not ready''))"
proof (cases "is_ready self")
  case True
  from predict_simple_ready [OF True, of pd opp ctx now g]
  obtain res where res: "predict_simple self pd opp ctx now g = Inr (res, \<lambda>n. g (n + 7))"
    "win_rate (input_features res) =
          of_int (dict_get pd ''wins'' 0)
            / of_int (max 1 (dict_get pd ''wins'' 0 + dict_get pd ''losses'' 0))"
    "trophy_factor (input_features res) = min 1 (of_int (dict_get pd ''trophies'' 0) / 6000)"
    "win_probability res =
          max 0.1 (min 0.9 (win_rate (input_features res) * 0.6
             + trophy_factor (input_features res) * 0.4 + (g 0 - 0.5) * 0.3))"
    by blast
  show ?thesis
    unfolding res(1) using True res(4) unfolding res(2) res(3)
    by (simp only: map_sum.simps comp_apply fst_conv if_True)
next
  case False
  then show ?thesis by (simp add: predict_simple_not_ready)
qed

text \<open>
  Claim C2, as amended. The win probability of the simple predictor depends on the input
  and on the first draw of the random source: two calls with the same predictor and the
  same player record whose first draws agree return the same win probability (or the
  same error), whatever the opponent data, the battle context, the clock and the later
  draws are.
\<close>

theorem predict_simple_same_draw_same_probability:
  assumes "g 0 = g' 0"
  shows "map_sum id (win_probability \<circ> fst) (predict_simple self pd opp ctx now g)
       = map_sum id (win_probability \<circ> fst) (predict_simple self pd opp' ctx' now' g')"
  unfolding predict_simple_probability_eq assms by (rule refl)

lemma switching_draws_shift: "(\<lambda>n. switching_draws k a b (n + k)) = constant_draws b"
  by (simp add: switching_draws_def constant_draws_def)

text \<open>
  Two sources that agree on the first draw only, with different opponent data, contexts
  and clocks.
\<close>

theorem predict_simple_same_draw_witness:
  "switching_draws 1 0 (1 / 2) 0 = constant_draws 0 0
   \<and> map_sum id (win_probability \<circ> fst)
        (predict_simple init_simple example_player None None ''2024-01-01T00:00:00''
           (switching_draws 1 0 (1 / 2)))
     = map_sum id (win_probability \<circ> fst)
        (predict_simple init_simple example_player (Some Map.empty) (Some Map.empty)
           ''2025-06-30T12:00:00'' (constant_draws 0))"
proof -
  have h: "switching_draws 1 0 (1 / 2) 0 = constant_draws 0 0"
    by (simp add: switching_draws_def constant_draws_def)
  show ?thesis
    using h predict_simple_same_draw_same_probability [of "switching_draws 1 0 (1 / 2)"
        "constant_draws 0" init_simple example_player
        None None "''2024-01-01T00:00:00''" "Some Map.empty" "Some Map.empty"
        "''2025-06-30T12:00:00''", OF h]
    by (rule conjI)
qed

text \<open>
  Two calls in a row on the same input. The source hands out 0 seven times and 0.5 from
  then on: the first call consumes the seven draws and returns 181/300, it leaves the
  source that hands out 0.5, and the second call, started on that source, returns
  113/150.
\<close>

theorem predict_simple_repeated_call_counterexample:
  "map_sum id (win_probability \<circ> fst)
     (predict_simple init_simple example_player None None ''2024-01-01T00:00:00''
        (switching_draws 7 0 (1 / 2))) = Inr (181 / 300)
   \<and> map_sum id snd
     (predict_simple init_simple example_player None None ''2024-01-01T00:00:00''
        (switching_draws 7 0 (1 / 2))) = Inr (constant_draws (1 / 2))
   \<and> map_sum id (win_probability \<circ> fst)
     (predict_simple init_simple example_player None None ''2024-01-01T00:00:00''
        (constant_draws (1 / 2))) = Inr (113 / 150)"
proof -
  have r: "is_ready init_simple" by (simp add: init_simple_def)
  have g0: "switching_draws 7 0 (1 / 2) 0 = 0" by (simp add: switching_draws_def)
  have "map_sum id (win_probability \<circ> fst)
     (predict_simple init_simple example_player None None ''2024-01-01T00:00:00''
        (switching_draws 7 0 (1 / 2))) = Inr (181 / 300)"
    unfolding predict_simple_probability_eq example_player_get g0
    by (simp add: r)
  moreover have "map_sum id snd
     (predict_simple init_simple example_player None None ''2024-01-01T00:00:00''
        (switching_draws 7 0 (1 / 2))) = Inr (constant_draws (1 / 2))"
  proof -
    from predict_simple_ready [OF r, of example_player None None "''2024-01-01T00:00:00''"
        "switching_draws 7 0 (1 / 2)"]
    obtain res where "predict_simple init_simple example_player None None
        ''2024-01-01T00:00:00'' (switching_draws 7 0 (1 / 2)) = Inr (res, constant_draws (1 / 2))"
      unfolding switching_draws_shift by blast
    then show ?thesis by simp
  qed
  moreover have "map_sum id (win_probability \<circ> fst)
     (predict_simple init_simple example_player None None ''2024-01-01T00:00:00''
        (constant_draws (1 / 2))) = Inr (113 / 150)"
    unfolding predict_simple_example_probability by simp
  ultimately show ?thesis by blast
qed

section \<open>Feature computations\<close>

lemma float_overflow_large: "2 \<le> float_overflow"
proof -
  have "(2::real) ^ 971 \<le> 2 ^ 1024" by (rule power_increasing) simp_all
  moreover have "(2::real) ^ 971 = 2 * 2 ^ 970" by simp
  moreover have "(2::real) \<le> 2 ^ 970" using power_increasing [of 1 970 "2::real"] by simp
  ultimately show ?thesis unfolding float_overflow_def by linarith
qed

lemma int_truediv_max1:
  "int_truediv a (max 1 n) =
     (if float_overflow \<le> \<bar>of_int a / of_int (max 1 n)\<bar> then Inl OverflowError
      else Inr (of_int a / of_int (max 1 n)))"
proof -
  have "max 1 n \<noteq> 0" by linarith
  then show ?thesis by (simp add: int_truediv_def)
qed

lemma int_truediv_6000:
  "int_truediv a 6000 =
     (if float_overflow \<le> \<bar>of_int a / 6000\<bar> then Inl OverflowError
      else Inr (of_int a / 6000))"
  by (simp add: int_truediv_def)

lemma player_features_eq:
  "player_features pd =
     (if float_overflow \<le> \<bar>of_int (dict_get pd ''wins'' 0)
            / of_int (max 1 (dict_get pd ''wins'' 0 + dict_get pd ''losses'' 0))\<bar>
         \<or> float_overflow \<le> \<bar>of_int (dict_get pd ''trophies'' 0) / 6000\<bar>
      then Inl OverflowError
      else Inr \<lparr>player_trophies = dict_get pd ''trophies'' 0,
                win_rate = of_int (dict_get pd ''wins'' 0)
                  / of_int (max 1 (dict_get pd ''wins'' 0 + dict_get pd ''losses'' 0)),
                trophy_factor = min 1 (of_int (dict_get pd ''trophies'' 0) / 6000)\<rparr>)"
  unfolding player_features_def Let_def int_truediv_max1 int_truediv_6000
  by simp

lemma get_player_stats_eq:
  "get_player_stats tag (Some pd) =
     (if pd = Map.empty then Inl (HTTPException 404)
      else if float_overflow \<le> \<bar>of_int (dict_get pd ''wins'' 0)
            / of_int (max 1 (dict_get pd ''wins'' 0 + dict_get pd ''losses'' 0))\<bar>
         \<or> float_overflow \<le> \<bar>of_int (dict_get pd ''trophies'' 0) / 6000\<bar>
      then Inl (HTTPException 500)
      else Inr \<lparr>stats_player_tag = tag,
          stats_win_rate = of_int (dict_get pd ''wins'' 0)
            / of_int (max 1 (dict_get pd ''wins'' 0 + dict_get pd ''losses'' 0)),
          total_battles = dict_get pd ''wins'' 0 + dict_get pd ''losses'' 0,
          skill_rating = min 1 (of_int (dict_get pd ''trophies'' 0) / 6000),
          consistency_score = 0.7,
          deck_mastery = 0.8,
          average_elixir_cost = 3.8\<rparr>)"
  unfolding get_player_stats_def Let_def int_truediv_max1 int_truediv_6000
  by simp


text \<open>
  Claim C9, as amended. For every player record the divisor of the win rate is
  \<open>max(1, wins + losses)\<close>, which is at least 1, so the feature computations never
  divide by zero, also for a player with no recorded battle. They fail exactly when a
  quotient is beyond the range of floats, with \<^verbatim>\<open>OverflowError\<close>. When both quotients
  are within the range, the win rate is \<open>wins / max(1, wins + losses)\<close>, the trophy
  factor is \<open>min(1, trophies / 6000)\<close> and never exceeds 1, and a ready predictor
  returns these features. The player-statistics endpoint computes its win rate and
  skill rating in the same way for every record that is not empty, answers 500 exactly
  when a quotient is out of range, and answers 404 for the empty record and for no
  record.
\<close>

theorem feature_computations_in_float_range:
  "1 \<le> max 1 (dict_get pd ''wins'' 0 + dict_get pd ''losses'' 0)
   \<and> player_features pd \<noteq> Inl ZeroDivisionError
   \<and> (player_features pd = Inl OverflowError \<longleftrightarrow>
        float_overflow \<le> \<bar>of_int (dict_get pd ''wins'' 0)
            / of_int (max 1 (dict_get pd ''wins'' 0 + dict_get pd ''losses'' 0))\<bar>
        \<or> float_overflow \<le> \<bar>of_int (dict_get pd ''trophies'' 0) / 6000\<bar>)
   \<and> (\<bar>of_int (dict_get pd ''wins'' 0)
            / of_int (max 1 (dict_get pd ''wins'' 0 + dict_get pd ''losses'' 0))\<bar> < float_overflow
        \<and> \<bar>of_int (dict_get pd ''trophies'' 0) / 6000\<bar> < float_overflow \<longrightarrow>
        (\<exists>fs. player_features pd = Inr fs
           \<and> win_rate fs = of_int (dict_get pd ''wins'' 0)
                / of_int (max 1 (dict_get pd ''wins'' 0 + dict_get pd ''losses'' 0))
           \<and> trophy_factor fs = min 1 (of_int (dict_get pd ''trophies'' 0) / 6000)
           \<and> trophy_factor fs \<le> 1)
        \<and> (is_ready self \<longrightarrow>
             (\<exists>res g'. predict_simple self pd opp ctx now g = Inr (res, g')
                \<and> player_features pd = Inr (input_features res)))
        \<and> (pd \<noteq> Map.empty \<longrightarrow>
             (\<exists>st. get_player_stats tag (Some pd) = Inr st
                \<and> stats_win_rate st = of_int (dict_get pd ''wins'' 0)
                     / of_int (max 1 (dict_get pd ''wins'' 0 + dict_get pd ''losses'' 0))
                \<and> skill_rating st = min 1 (of_int (dict_get pd ''trophies'' 0) / 6000)
                \<and> skill_rating st \<le> 1)))
   \<and> (get_player_stats tag (Some pd) = Inl (HTTPException 500) \<longleftrightarrow>
        pd \<noteq> Map.empty
        \<and> (float_overflow \<le> \<bar>of_int (dict_get pd ''wins'' 0)
               / of_int (max 1 (dict_get pd ''wins'' 0 + dict_get pd ''losses'' 0))\<bar>
           \<or> float_overflow \<le> \<bar>of_int (dict_get pd ''trophies'' 0) / 6000\<bar>))
   \<and> get_player_stats tag (Some Map.empty) = Inl (HTTPException 404)
   \<and> get_player_stats tag None = Inl (HTTPException 404)"
proof -
  let ?w = "of_int (dict_get pd ''wins'' 0)
            / of_int (max 1 (dict_get pd ''wins'' 0 + dict_get pd ''losses'' 0)) :: real"
  let ?t = "of_int (dict_get pd ''trophies'' 0) / 6000 :: real"
  have a: "1 \<le> max 1 (dict_get pd ''wins'' 0 + dict_get pd ''losses'' 0)" by simp
  have b: "player_features pd \<noteq> Inl ZeroDivisionError"
    unfolding player_features_eq by simp
  have c: "player_features pd = Inl OverflowError \<longleftrightarrow>
      float_overflow \<le> \<bar>?w\<bar> \<or> float_overflow \<le> \<bar>?t\<bar>"
    unfolding player_features_eq by simp
  have d: "\<exists>fs. player_features pd = Inr fs \<and> win_rate fs = ?w
      \<and> trophy_factor fs = min 1 ?t \<and> trophy_factor fs \<le> 1"
    if "\<bar>?w\<bar> < float_overflow" "\<bar>?t\<bar> < float_overflow"
    unfolding player_features_eq using that by simp
  have e: "\<exists>res g'. predict_simple self pd opp ctx now g = Inr (res, g')
      \<and> player_features pd = Inr (input_features res)"
    if "\<bar>?w\<bar> < float_overflow" "\<bar>?t\<bar> < float_overflow" "is_ready self"
  proof -
    from predict_simple_ready [OF that(3), of pd opp ctx now g]
    obtain res where res:
      "predict_simple self pd opp ctx now g = Inr (res, \<lambda>n. g (n + 7))"
      "player_trophies (input_features res) = dict_get pd ''trophies'' 0"
      "win_rate (input_features res) = ?w"
      "trophy_factor (input_features res) = min 1 ?t"
      by blast
    have "player_features pd = Inr (input_features res)"
      unfolding player_features_eq using that(1,2) res(2,3,4) by simp
    with res(1) show ?thesis by blast
  qed
  have f: "\<exists>st. get_player_stats tag (Some pd) = Inr st \<and> stats_win_rate st = ?w
      \<and> skill_rating st = min 1 ?t \<and> skill_rating st \<le> 1"
    if "\<bar>?w\<bar> < float_overflow" "\<bar>?t\<bar> < float_overflow" "pd \<noteq> Map.empty"
    unfolding get_player_stats_eq using that by simp
  have g: "get_player_stats tag (Some pd) = Inl (HTTPException 500) \<longleftrightarrow>
      pd \<noteq> Map.empty \<and> (float_overflow \<le> \<bar>?w\<bar> \<or> float_overflow \<le> \<bar>?t\<bar>)"
    unfolding get_player_stats_eq by simp
  have h: "get_player_stats tag (Some Map.empty) = Inl (HTTPException 404)"
    "get_player_stats tag None = Inl (HTTPException 404)"
    by (simp_all add: get_player_stats_def)
  show ?thesis
    using a b c d e f g h by blast
qed

text \<open>
  A player with no recorded battle and 9000 trophies: the win rate is 0 and the trophy
  factor is capped at 1.
\<close>

theorem feature_computations_witness:
  "\<bar>of_int (dict_get [''trophies'' \<mapsto> 9000] ''wins'' 0)
      / of_int (max 1 (dict_get [''trophies'' \<mapsto> 9000] ''wins'' 0
          + dict_get [''trophies'' \<mapsto> 9000] ''losses'' 0))\<bar> < float_overflow
   \<and> \<bar>of_int (dict_get [''trophies'' \<mapsto> 9000] ''trophies'' 0) / 6000\<bar> < float_overflow
   \<and> is_ready init_simple
   \<and> [''trophies'' \<mapsto> 9000] \<noteq> (Map.empty :: int dict)
   \<and> (\<exists>fs. player_features [''trophies'' \<mapsto> 9000] = Inr fs
         \<and> win_rate fs = 0 \<and> trophy_factor fs = 1)
   \<and> (\<exists>res g'. predict_simple init_simple [''trophies'' \<mapsto> 9000] None None
          ''2024-01-01T00:00:00'' (constant_draws 0) = Inr (res, g')
         \<and> player_features [''trophies'' \<mapsto> 9000] = Inr (input_features res))
   \<and> (\<exists>st. get_player_stats ''ABC123'' (Some [''trophies'' \<mapsto> 9000]) = Inr st
         \<and> stats_win_rate st = 0 \<and> skill_rating st = 1)"
proof -
  let ?pd = "[''trophies'' \<mapsto> 9000] :: int dict"
  have d: "dict_get ?pd ''wins'' 0 = 0" "dict_get ?pd ''losses'' 0 = 0"
    "dict_get ?pd ''trophies'' 0 = 9000"
    by (simp_all add: dict_get_def)
  have h1: "\<bar>of_int (dict_get ?pd ''wins'' 0)
      / of_int (max 1 (dict_get ?pd ''wins'' 0 + dict_get ?pd ''losses'' 0))\<bar> < float_overflow"
    unfolding d using float_overflow_large by simp
  have h2: "\<bar>of_int (dict_get ?pd ''trophies'' 0) / 6000\<bar> < float_overflow"
    unfolding d using float_overflow_large by simp
  have r: "is_ready init_simple" by (simp add: init_simple_def)
  have ne: "?pd \<noteq> Map.empty" by simp
  note t = feature_computations_in_float_range [of ?pd init_simple None None
      "''2024-01-01T00:00:00''" "constant_draws 0" "''ABC123''"]
  from t h1 h2 obtain fs where fs: "player_features ?pd = Inr fs"
    "win_rate fs = of_int (dict_get ?pd ''wins'' 0)
                / of_int (max 1 (dict_get ?pd ''wins'' 0 + dict_get ?pd ''losses'' 0))"
    "trophy_factor fs = min 1 (of_int (dict_get ?pd ''trophies'' 0) / 6000)"
    by blast
  from t h1 h2 r obtain res g' where res:
    "predict_simple init_simple ?pd None None ''2024-01-01T00:00:00'' (constant_draws 0)
       = Inr (res, g')"
    "player_features ?pd = Inr (input_features res)"
    by blast
  from t h1 h2 ne obtain st where st:
    "get_player_stats ''ABC123'' (Some ?pd) = Inr st"
    "stats_win_rate st = of_int (dict_get ?pd ''wins'' 0)
                / of_int (max 1 (dict_get ?pd ''wins'' 0 + dict_get ?pd ''losses'' 0))"
    "skill_rating st = min 1 (of_int (dict_get ?pd ''trophies'' 0) / 6000)"
    by blast
  have "win_rate fs = 0" "trophy_factor fs = 1" using fs(2,3) unfolding d by simp_all
  moreover have "stats_win_rate st = 0" "skill_rating st = 1" using st(2,3) unfolding d by simp_all
  ultimately show ?thesis using h1 h2 r ne fs(1) res st(1) by blast
qed

text \<open>
  A record whose trophies are \<open>6000 * 2^1024\<close>: the quotient \<open>2^1024\<close> is no float,
  the division raises \<^verbatim>\<open>OverflowError\<close> and the endpoint answers 500.
\<close>

theorem feature_computations_overflow_counterexample:
  "player_features [''trophies'' \<mapsto> 6000 * 2 ^ 1024] = Inl OverflowError
   \<and> get_player_stats ''ABC123'' (Some [''trophies'' \<mapsto> 6000 * 2 ^ 1024])
       = Inl (HTTPException 500)"
proof -
  let ?pd = "[''trophies'' \<mapsto> 6000 * 2 ^ 1024] :: int dict"
  have d: "dict_get ?pd ''wins'' 0 = 0" "dict_get ?pd ''losses'' 0 = 0"
    "dict_get ?pd ''trophies'' 0 = 6000 * 2 ^ 1024"
    by (simp_all add: dict_get_def)
  have q: "\<bar>of_int (6000 * 2 ^ 1024) / 6000\<bar> = (2 ^ 1024 :: real)" by simp
  have o: "float_overflow \<le> \<bar>of_int (6000 * 2 ^ 1024) / 6000\<bar>"
    unfolding q float_overflow_def by simp
  have ne: "?pd \<noteq> Map.empty" by simp
  show ?thesis
    unfolding player_features_eq get_player_stats_eq d using o ne by simp
qed

section \<open>The simple predictor: live prediction\<close>

lemma random_randint_snd: "snd (random_randint a b g) = (\<lambda>n. g (Suc n))"
  by (simp add: random_randint_def random_random_def)

lemma predict_live_simple_unfold:
  "predict_live_simple self tag bd now g =
     Inr (\<lparr>win_probability = 0.5 + (g 0 - 0.5) * 0.6,
           confidence = 0.6 + g (Suc 0) * 0.3,
           model_version = self_model_version self,
           recommendations =
             generate_live_recommendations_simple (0.5 + (g 0 - 0.5) * 0.6) bd,
           timestamp = now,
           battle_analysis =
             \<lparr>battle_time_remaining = dict_get bd ''time_remaining'' 180,
              player_towers = dict_get bd ''player_towers'' 3,
              opponent_towers = dict_get bd ''opponent_towers'' 3,
              elixir_advantage = fst (random_randint (- 2) 2 (\<lambda>n. g (Suc (Suc n)))),
              current_phase =
                determine_battle_phase_simple (dict_get bd ''time_remaining'' 180)\<rparr>\<rparr>,
          \<lambda>n. g (Suc (Suc (Suc n))))"
  unfolding predict_live_simple_def Let_def split_def random_random_simps random_randint_snd
  by (rule refl)

text \<open>
  Claim C10. In the simple predictor the win probability and the confidence of
  \<^verbatim>\<open>predict_live\<close> are functions of the random source alone: the probability is
  \<open>0.5 + 0.6 * (r1 - 0.5)\<close> and the confidence \<open>0.6 + 0.3 * r2\<close> for its first two
  draws, so two calls on the same source return the same probability and the same
  confidence, whatever the predictor state, the player tag, the battle data and the
  clock are.
\<close>

theorem predict_live_simple_ignores_arguments:
  "map_sum id (win_probability \<circ> fst) (predict_live_simple self tag bd now g)
     = Inr (0.5 + (g 0 - 0.5) * 0.6)
   \<and> map_sum id (confidence \<circ> fst) (predict_live_simple self tag bd now g)
     = Inr (0.6 + g 1 * 0.3)
   \<and> map_sum id (win_probability \<circ> fst) (predict_live_simple self tag bd now g)
     = map_sum id (win_probability \<circ> fst) (predict_live_simple self' tag' bd' now' g)
   \<and> map_sum id (confidence \<circ> fst) (predict_live_simple self tag bd now g)
     = map_sum id (confidence \<circ> fst) (predict_live_simple self' tag' bd' now' g)"
  unfolding predict_live_simple_unfold
  by (simp only: map_sum.simps comp_apply fst_conv prediction_base.simps One_nat_def id_apply
      simp_thms)

section \<open>The learned-model predictor: readiness and confidence\<close>

lemma predict_not_ready:
  "\<not> is_ready self \<Longrightarrow> predict self pd opp ctx now = Inl (ValueError ''Model not ready'')"
  by (simp add: predict_def)

lemma predict_live_not_ready:
  "\<not> is_ready self \<Longrightarrow> predict_live self tag bd now = Inl (ValueError ''Model not ready'')"
  by (simp add: predict_live_def)

lemma predict_no_model:
  "is_ready self \<Longrightarrow> model self = None \<Longrightarrow> predict self pd opp ctx now = Inl TypeError"
  by (simp add: predict_def)

lemma predict_live_no_model:
  "is_ready self \<Longrightarrow> model self = None \<Longrightarrow> predict_live self tag bd now = Inl TypeError"
  by (simp add: predict_live_def)

lemma predict_ready:
  assumes "is_ready self" and "model self = Some m"
  shows "predict self pd opp ctx now =
     (let features = extract_features (feature_engineer self) pd opp ctx;
          p = m (prepare_model_input self features)
      in Inr \<lparr>win_probability = p,
              confidence = calculate_confidence p,
              model_version = self_model_version self,
              recommendations = generate_recommendations features p,
              timestamp = now,
              input_features = features,
              influencing_factors = analyze_influencing_factors features\<rparr>)"
  using assms by (simp add: predict_def Let_def)

lemma predict_live_ready:
  assumes "is_ready self" and "model self = Some m"
  shows "predict_live self tag bd now =
     (let features = extract_live_features (feature_engineer self) tag bd;
          p = m (prepare_model_input self features)
      in Inr \<lparr>win_probability = p,
              confidence = calculate_confidence p,
              model_version = self_model_version self,
              recommendations = generate_live_recommendations features p bd,
              timestamp = now,
              battle_analysis = analyze_battle_state bd\<rparr>)"
  using assms by (simp add: predict_live_def Let_def)

lemma predict_not_ready_iff:
  "predict self pd opp ctx now = Inl (ValueError ''Model not ready'') \<longleftrightarrow> \<not> is_ready self"
proof (cases "is_ready self")
  case False
  then show ?thesis by (simp add: predict_not_ready)
next
  case True
  show ?thesis
  proof (cases "model self")
    case None
    with True show ?thesis by (simp add: predict_no_model)
  next
    case (Some m)
    with True show ?thesis by (simp add: predict_ready Let_def)
  qed
qed

lemma predict_live_not_ready_iff:
  "predict_live self tag bd now = Inl (ValueError ''Model not ready'') \<longleftrightarrow> \<not> is_ready self"
proof (cases "is_ready self")
  case False
  then show ?thesis by (simp add: predict_live_not_ready)
next
  case True
  show ?thesis
  proof (cases "model self")
    case None
    with True show ?thesis by (simp add: predict_live_no_model)
  next
    case (Some m)
    with True show ?thesis by (simp add: predict_live_ready Let_def)
  qed
qed

text \<open>
  Claim C8. Both entry points of the learned-model predictor fail with the not-ready
  error (\<^verbatim>\<open>ValueError("Model not ready")\<close>) exactly when the predictor is not ready;
  it is not ready when constructed, ready after an initialization that succeeded and not
  ready after one that failed. The simple predictor is ready when constructed and after
  \<^verbatim>\<open>initialize\<close>, which are the only assignments to its flag, so its \<^verbatim>\<open>predict\<close>
  never fails with the not-ready error, and its \<^verbatim>\<open>predict_live\<close>, which does not
  look at the flag, never fails at all.
\<close>

theorem not_ready_iff_not_initialized:
  "(predict self pd opp ctx now = Inl (ValueError ''Model not ready'') \<longleftrightarrow> \<not> is_ready self)
   \<and> (predict_live self tag bd now = Inl (ValueError ''Model not ready'')
        \<longleftrightarrow> \<not> is_ready self)
   \<and> \<not> is_ready (init threshold fe)
   \<and> is_ready (initialize (Some m) self)
   \<and> \<not> is_ready (initialize None self)
   \<and> is_ready init_simple
   \<and> is_ready (initialize_simple s)
   \<and> predict_simple init_simple pd opp ctx now g \<noteq> Inl (ValueError ''Model not ready'')
   \<and> predict_simple (initialize_simple s) pd opp ctx now g
        \<noteq> Inl (ValueError ''Model not ready'')
   \<and> predict_live_simple s tag bd now g \<noteq> Inl e"
proof -
  have r1: "is_ready init_simple" by (simp add: init_simple_def)
  have r2: "is_ready (initialize_simple s)" by (simp add: initialize_simple_def)
  have "predict_simple init_simple pd opp ctx now g \<noteq> Inl (ValueError ''Model not ready'')"
  proof -
    from predict_simple_ready [OF r1, of pd opp ctx now g]
    obtain res where "predict_simple init_simple pd opp ctx now g = Inr (res, \<lambda>n. g (n + 7))"
      by blast
    then show ?thesis by simp
  qed
  moreover have "predict_simple (initialize_simple s) pd opp ctx now g
      \<noteq> Inl (ValueError ''Model not ready'')"
  proof -
    from predict_simple_ready [OF r2, of pd opp ctx now g]
    obtain res where
      "predict_simple (initialize_simple s) pd opp ctx now g = Inr (res, \<lambda>n. g (n + 7))"
      by blast
    then show ?thesis by simp
  qed
  moreover have "predict_live_simple s tag bd now g \<noteq> Inl e"
    unfolding predict_live_simple_unfold by simp
  moreover have "\<not> is_ready (init threshold fe)" by (simp add: init_def)
  moreover have "is_ready (initialize (Some m) self)" "\<not> is_ready (initialize None self)"
    by (simp_all add: initialize_def)
  ultimately show ?thesis
    using r1 r2 predict_not_ready_iff [of self pd opp ctx now]
      predict_live_not_ready_iff [of self tag bd now]
    by blast
qed









section \<open>Factor attribution\<close>


















section \<open>Recommendations\<close>

lemma generate_recommendations_length:
  "length (generate_recommendations features p) =
     (if p < 0.4 then (if dict_get features ''deck_synergy_score'' 0 < 0.5 then 3 else 2) else 2)
     + (if dict_get features ''average_elixir_cost'' 0 > 4.0
          \<or> dict_get features ''average_elixir_cost'' 0 < 3.0 then 1 else 0)"
  by (simp add: generate_recommendations_def)

lemma generate_recommendations_set:
  "set (generate_recommendations features p) =
     (if p < 0.4 then
        {''Consider a more defensive strategy'', ''Focus on positive elixir trades''}
        \<union> (if dict_get features ''deck_synergy_score'' 0 < 0.5
           then {''Your deck synergy is low - consider card substitutions''} else {})
      else if p > 0.7 then
        {''You have a strong advantage - maintain pressure'',
         ''Look for opportunities to take towers''}
      else
        {''Match is balanced - adapt to opponent's strategy'', ''Monitor elixir carefully''})
     \<union> (if dict_get features ''average_elixir_cost'' 0 > 4.0
        then {''Heavy deck - be patient with elixir management''}
        else if dict_get features ''average_elixir_cost'' 0 < 3.0
        then {''Fast cycle deck - maintain constant pressure''}
        else {})"
  by (simp add: generate_recommendations_def)

text \<open>
  Claim C6, as amended. In the learned-model predictor the snapshot recommendations
  follow the three probability bands: below 0.4 the defensive advice, with the synergy
  warning exactly when the deck-synergy score is below 0.5; above 0.7 the pressure
  advice; otherwise the balanced advice. The elixir advice is appended exactly when the
  average elixir cost is above 4 (patience) or below 3 (cycle pressure). The list has at
  most four items, and at most three unless the synergy warning and an elixir advice are
  both present. The simple predictor returns exactly the three items of the band of the
  probability; the list does not depend on the player data or on the random source.
\<close>

theorem snapshot_recommendations:
  "length (generate_recommendations features p) \<le> 4
   \<and> (length (generate_recommendations features p) \<le> 3 \<longleftrightarrow>
        \<not> (p < 0.4 \<and> dict_get features ''deck_synergy_score'' 0 < 0.5
           \<and> (dict_get features ''average_elixir_cost'' 0 > 4
                \<or> dict_get features ''average_elixir_cost'' 0 < 3)))
   \<and> (''Consider a more defensive strategy'' \<in> set (generate_recommendations features p)
        \<longleftrightarrow> p < 0.4)
   \<and> (''Your deck synergy is low - consider card substitutions''
          \<in> set (generate_recommendations features p)
        \<longleftrightarrow> p < 0.4 \<and> dict_get features ''deck_synergy_score'' 0 < 0.5)
   \<and> (''You have a strong advantage - maintain pressure''
          \<in> set (generate_recommendations features p)
        \<longleftrightarrow> p > 0.7)
   \<and> (''Match is balanced - adapt to opponent's strategy''
          \<in> set (generate_recommendations features p)
        \<longleftrightarrow> 0.4 \<le> p \<and> p \<le> 0.7)
   \<and> (''Heavy deck - be patient with elixir management''
          \<in> set (generate_recommendations features p)
        \<longleftrightarrow> dict_get features ''average_elixir_cost'' 0 > 4)
   \<and> (''Fast cycle deck - maintain constant pressure''
          \<in> set (generate_recommendations features p)
        \<longleftrightarrow> dict_get features ''average_elixir_cost'' 0 < 3)
   \<and> length (fst (generate_recommendations_simple p pd g)) = 3
   \<and> (''Focus on defensive plays'' \<in> set (fst (generate_recommendations_simple p pd g))
        \<longleftrightarrow> p < 0.4)
   \<and> (''Maintain aggressive pressure'' \<in> set (fst (generate_recommendations_simple p pd g))
        \<longleftrightarrow> p > 0.7)
   \<and> (''Adapt to opponent's strategy'' \<in> set (fst (generate_recommendations_simple p pd g))
        \<longleftrightarrow> 0.4 \<le> p \<and> p \<le> 0.7)
   \<and> fst (generate_recommendations_simple p pd g) = fst (generate_recommendations_simple p pd' g')"
proof (intro conjI)
  show "length (generate_recommendations features p) \<le> 4"
    unfolding generate_recommendations_length by simp
  show "length (generate_recommendations features p) \<le> 3 \<longleftrightarrow>
        \<not> (p < 0.4 \<and> dict_get features ''deck_synergy_score'' 0 < 0.5
           \<and> (dict_get features ''average_elixir_cost'' 0 > 4
                \<or> dict_get features ''average_elixir_cost'' 0 < 3))"
    unfolding generate_recommendations_length by simp
  show "''Consider a more defensive strategy'' \<in> set (generate_recommendations features p)
        \<longleftrightarrow> p < 0.4"
    unfolding generate_recommendations_set by simp
  show "''Your deck synergy is low - consider card substitutions''
          \<in> set (generate_recommendations features p)
        \<longleftrightarrow> p < 0.4 \<and> dict_get features ''deck_synergy_score'' 0 < 0.5"
    unfolding generate_recommendations_set by simp
  show "''You have a strong advantage - maintain pressure''
          \<in> set (generate_recommendations features p)
        \<longleftrightarrow> p > 0.7"
    unfolding generate_recommendations_set by simp
  show "''Match is balanced - adapt to opponent's strategy''
          \<in> set (generate_recommendations features p)
        \<longleftrightarrow> 0.4 \<le> p \<and> p \<le> 0.7"
    unfolding generate_recommendations_set by auto
  show "''Heavy deck - be patient with elixir management''
          \<in> set (generate_recommendations features p)
        \<longleftrightarrow> dict_get features ''average_elixir_cost'' 0 > 4"
    unfolding generate_recommendations_set by simp
  show "''Fast cycle deck - maintain constant pressure''
          \<in> set (generate_recommendations features p)
        \<longleftrightarrow> dict_get features ''average_elixir_cost'' 0 < 3"
    unfolding generate_recommendations_set by simp
  show "length (fst (generate_recommendations_simple p pd g)) = 3"
    unfolding generate_recommendations_simple_fst by simp
  show "''Focus on defensive plays'' \<in> set (fst (generate_recommendations_simple p pd g))
        \<longleftrightarrow> p < 0.4"
    unfolding generate_recommendations_simple_fst by simp
  show "''Maintain aggressive pressure'' \<in> set (fst (generate_recommendations_simple p pd g))
        \<longleftrightarrow> p > 0.7"
    by (rule maintain_pressure_iff)
  show "''Adapt to opponent's strategy'' \<in> set (fst (generate_recommendations_simple p pd g))
        \<longleftrightarrow> 0.4 \<le> p \<and> p \<le> 0.7"
    unfolding generate_recommendations_simple_fst by auto
  show "fst (generate_recommendations_simple p pd g) = fst (generate_recommendations_simple p pd' g')"
    unfolding generate_recommendations_simple_fst by (rule refl)
qed

text \<open>
  Probability 0.2, deck-synergy score 0.3 and average elixir cost 4.5: four items.
\<close>

theorem snapshot_recommendations_counterexample:
  "generate_recommendations [''deck_synergy_score'' \<mapsto> 0.3, ''average_elixir_cost'' \<mapsto> 4.5] 0.2 =
     [''Consider a more defensive strategy'',
      ''Focus on positive elixir trades'',
      ''Your deck synergy is low - consider card substitutions'',
      ''Heavy deck - be patient with elixir management'']
   \<and> length (generate_recommendations
        [''deck_synergy_score'' \<mapsto> 0.3, ''average_elixir_cost'' \<mapsto> 4.5] 0.2) = 4"
  by (simp add: generate_recommendations_def dict_get_def)


subsection \<open>Live recommendations\<close>

lemma phase_strings_distinct:
  "determine_battle_phase bd = ''early_game'' \<longleftrightarrow> dict_get bd ''time_remaining'' 0 > 120"
  "determine_battle_phase bd = ''mid_game'' \<longleftrightarrow>
     60 < dict_get bd ''time_remaining'' 0 \<and> dict_get bd ''time_remaining'' 0 \<le> 120"
  "determine_battle_phase bd = ''late_game'' \<longleftrightarrow>
     0 < dict_get bd ''time_remaining'' 0 \<and> dict_get bd ''time_remaining'' 0 \<le> 60"
  "determine_battle_phase bd = ''overtime'' \<longleftrightarrow> dict_get bd ''time_remaining'' 0 \<le> 0"
  unfolding determine_battle_phase_eq
  by (simp_all add: determine_battle_phase_simple_def)

lemma generate_live_recommendations_eq:
  "generate_live_recommendations features p bd =
     (if dict_get bd ''time_remaining'' 0 > 120 then
        [''Focus on learning opponent's deck'', ''Make positive elixir trades'']
      else if dict_get bd ''time_remaining'' 0 > 60 then
        (if p > 0.6 then [''Build a strong push''] else [''Defend and counter-attack''])
      else if dict_get bd ''time_remaining'' 0 > 0 then
        (if 3 - dict_get bd ''player_towers'' 3 > 3 - dict_get bd ''opponent_towers'' 3
         then [''Play defensively - protect your lead'']
         else [''Time for aggressive plays''])
      else [''High-risk, high-reward plays'', ''Focus on tower damage''])"
  unfolding generate_live_recommendations_def Let_def phase_strings_distinct
  by simp

lemma protect_lead_iff:
  "''Play defensively - protect your lead'' \<in> set (generate_live_recommendations features p bd)
     \<longleftrightarrow> determine_battle_phase bd = ''late_game''
         \<and> dict_get bd ''player_towers'' 3 < dict_get bd ''opponent_towers'' 3"
  unfolding generate_live_recommendations_eq phase_strings_distinct by simp

lemma aggressive_plays_iff:
  "''Time for aggressive plays'' \<in> set (generate_live_recommendations features p bd)
     \<longleftrightarrow> determine_battle_phase bd = ''late_game''
         \<and> \<not> dict_get bd ''player_towers'' 3 < dict_get bd ''opponent_towers'' 3"
  unfolding generate_live_recommendations_eq phase_strings_distinct by simp

text \<open>
  Claim C7, as amended. In the learned-model predictor the live recommendations are
  phase-specific: the scouting advice exactly in \<^verbatim>\<open>early_game\<close>; in \<^verbatim>\<open>mid_game\<close> the
  push advice when the probability exceeds 0.6 and the defend advice otherwise; in
  \<^verbatim>\<open>late_game\<close>, and only there, exactly one of the lead-protection and the
  aggression advice, decided by a strict comparison of the towers the two sides have
  left (3 when absent), with the aggression advice when they are level; the high-risk
  advice exactly in \<^verbatim>\<open>overtime\<close>; the list is never empty and never contains the
  elixir-management reminder. Which of the two sides the lead-protection advice goes to
  is left open: the statement holds for either direction of the comparison. In the
  simple predictor the list has three items: one chosen by the remaining time (180 when
  absent) with the thresholds 120 and 60, one chosen by whether the probability exceeds
  0.6, and last the elixir-management reminder.
\<close>

theorem live_recommendations_by_phase:
  "(''Focus on learning opponent's deck'' \<in> set (generate_live_recommendations features p bd)
      \<longleftrightarrow> determine_battle_phase bd = ''early_game'')
   \<and> (''Build a strong push'' \<in> set (generate_live_recommendations features p bd)
      \<longleftrightarrow> determine_battle_phase bd = ''mid_game'' \<and> p > 0.6)
   \<and> (''Defend and counter-attack'' \<in> set (generate_live_recommendations features p bd)
      \<longleftrightarrow> determine_battle_phase bd = ''mid_game'' \<and> \<not> p > 0.6)
   \<and> (''Play defensively - protect your lead''
          \<in> set (generate_live_recommendations features p bd)
        \<or> ''Time for aggressive plays'' \<in> set (generate_live_recommendations features p bd)
      \<longleftrightarrow> determine_battle_phase bd = ''late_game'')
   \<and> \<not> (''Play defensively - protect your lead''
          \<in> set (generate_live_recommendations features p bd)
        \<and> ''Time for aggressive plays'' \<in> set (generate_live_recommendations features p bd))
   \<and> ((\<forall>features' p' bd'. determine_battle_phase bd' = ''late_game'' \<longrightarrow>
          (''Play defensively - protect your lead''
             \<in> set (generate_live_recommendations features' p' bd')
           \<longleftrightarrow> dict_get bd' ''player_towers'' 3 < dict_get bd' ''opponent_towers'' 3))
        \<or> (\<forall>features' p' bd'. determine_battle_phase bd' = ''late_game'' \<longrightarrow>
          (''Play defensively - protect your lead''
             \<in> set (generate_live_recommendations features' p' bd')
           \<longleftrightarrow> dict_get bd' ''opponent_towers'' 3 < dict_get bd' ''player_towers'' 3)))
   \<and> (''High-risk, high-reward plays'' \<in> set (generate_live_recommendations features p bd)
      \<longleftrightarrow> determine_battle_phase bd = ''overtime'')
   \<and> ''Watch your elixir management'' \<notin> set (generate_live_recommendations features p bd)
   \<and> generate_live_recommendations features p bd \<noteq> []
   \<and> length (generate_live_recommendations_simple p bd) = 3
   \<and> last (generate_live_recommendations_simple p bd) = ''Watch your elixir management''
   \<and> (''Learn opponent's deck rotation'' \<in> set (generate_live_recommendations_simple p bd)
      \<longleftrightarrow> dict_get bd ''time_remaining'' 180 > 120)
   \<and> (''Build your main push'' \<in> set (generate_live_recommendations_simple p bd)
      \<longleftrightarrow> 60 < dict_get bd ''time_remaining'' 180 \<and> dict_get bd ''time_remaining'' 180 \<le> 120)
   \<and> (''Go for decisive plays'' \<in> set (generate_live_recommendations_simple p bd)
      \<longleftrightarrow> dict_get bd ''time_remaining'' 180 \<le> 60)
   \<and> (''Maintain pressure'' \<in> set (generate_live_recommendations_simple p bd) \<longleftrightarrow> p > 0.6)
   \<and> (''Focus on defense'' \<in> set (generate_live_recommendations_simple p bd)
      \<longleftrightarrow> \<not> p > 0.6)"
proof (intro conjI)
  show "''Focus on learning opponent's deck'' \<in> set (generate_live_recommendations features p bd)
      \<longleftrightarrow> determine_battle_phase bd = ''early_game''"
    unfolding generate_live_recommendations_eq phase_strings_distinct by simp
  show "''Build a strong push'' \<in> set (generate_live_recommendations features p bd)
      \<longleftrightarrow> determine_battle_phase bd = ''mid_game'' \<and> p > 0.6"
    unfolding generate_live_recommendations_eq phase_strings_distinct by simp
  show "''Defend and counter-attack'' \<in> set (generate_live_recommendations features p bd)
      \<longleftrightarrow> determine_battle_phase bd = ''mid_game'' \<and> \<not> p > 0.6"
    unfolding generate_live_recommendations_eq phase_strings_distinct by simp
  show "''Play defensively - protect your lead''
          \<in> set (generate_live_recommendations features p bd)
        \<or> ''Time for aggressive plays'' \<in> set (generate_live_recommendations features p bd)
      \<longleftrightarrow> determine_battle_phase bd = ''late_game''"
    unfolding protect_lead_iff aggressive_plays_iff by blast
  show "\<not> (''Play defensively - protect your lead''
          \<in> set (generate_live_recommendations features p bd)
        \<and> ''Time for aggressive plays'' \<in> set (generate_live_recommendations features p bd))"
    unfolding protect_lead_iff aggressive_plays_iff by blast
  show "(\<forall>features' p' bd'. determine_battle_phase bd' = ''late_game'' \<longrightarrow>
          (''Play defensively - protect your lead''
             \<in> set (generate_live_recommendations features' p' bd')
           \<longleftrightarrow> dict_get bd' ''player_towers'' 3 < dict_get bd' ''opponent_towers'' 3))
        \<or> (\<forall>features' p' bd'. determine_battle_phase bd' = ''late_game'' \<longrightarrow>
          (''Play defensively - protect your lead''
             \<in> set (generate_live_recommendations features' p' bd')
           \<longleftrightarrow> dict_get bd' ''opponent_towers'' 3 < dict_get bd' ''player_towers'' 3))"
    unfolding protect_lead_iff by blast
  show "''High-risk, high-reward plays'' \<in> set (generate_live_recommendations features p bd)
      \<longleftrightarrow> determine_battle_phase bd = ''overtime''"
    unfolding generate_live_recommendations_eq phase_strings_distinct by simp
  show "''Watch your elixir management'' \<notin> set (generate_live_recommendations features p bd)"
    unfolding generate_live_recommendations_eq by simp
  show "generate_live_recommendations features p bd \<noteq> []"
    unfolding generate_live_recommendations_eq by simp
  show "length (generate_live_recommendations_simple p bd) = 3"
    by (simp add: generate_live_recommendations_simple_def Let_def)
  show "last (generate_live_recommendations_simple p bd) = ''Watch your elixir management''"
    by (simp add: generate_live_recommendations_simple_def Let_def)
  show "''Learn opponent's deck rotation'' \<in> set (generate_live_recommendations_simple p bd)
      \<longleftrightarrow> dict_get bd ''time_remaining'' 180 > 120"
    by (simp add: generate_live_recommendations_simple_def Let_def)
  show "''Build your main push'' \<in> set (generate_live_recommendations_simple p bd)
      \<longleftrightarrow> 60 < dict_get bd ''time_remaining'' 180 \<and> dict_get bd ''time_remaining'' 180 \<le> 120"
    by (simp add: generate_live_recommendations_simple_def Let_def)
  show "''Go for decisive plays'' \<in> set (generate_live_recommendations_simple p bd)
      \<longleftrightarrow> dict_get bd ''time_remaining'' 180 \<le> 60"
    by (auto simp: generate_live_recommendations_simple_def Let_def)
  show "''Maintain pressure'' \<in> set (generate_live_recommendations_simple p bd) \<longleftrightarrow> p > 0.6"
    by (simp add: generate_live_recommendations_simple_def Let_def)
  show "''Focus on defense'' \<in> set (generate_live_recommendations_simple p bd)
      \<longleftrightarrow> \<not> p > 0.6"
    by (simp add: generate_live_recommendations_simple_def Let_def)
qed

text \<open>
  Thirty seconds left and no tower lost on either side: late game, the towers are
  level, and the advice is the aggression one.
\<close>

theorem live_recommendations_by_phase_witness:
  "determine_battle_phase [''time_remaining'' \<mapsto> 30] = ''late_game''
   \<and> ''Play defensively - protect your lead''
        \<notin> set (generate_live_recommendations Map.empty (1 / 2) [''time_remaining'' \<mapsto> 30])
   \<and> ''Time for aggressive plays''
        \<in> set (generate_live_recommendations Map.empty (1 / 2) [''time_remaining'' \<mapsto> 30])"
proof -
  let ?bd = "[''time_remaining'' \<mapsto> 30] :: int dict"
  have late: "determine_battle_phase ?bd = ''late_game''"
    unfolding phase_strings_distinct by (simp add: dict_get_def)
  have tie: "\<not> dict_get ?bd ''player_towers'' 3 < dict_get ?bd ''opponent_towers'' 3"
    "\<not> dict_get ?bd ''opponent_towers'' 3 < dict_get ?bd ''player_towers'' 3"
    by (simp_all add: dict_get_def)
  note t = live_recommendations_by_phase [of Map.empty "1 / 2" ?bd]
  from t late tie have n: "''Play defensively - protect your lead''
        \<notin> set (generate_live_recommendations Map.empty (1 / 2) ?bd)"
    by blast
  from t late n have "''Time for aggressive plays''
        \<in> set (generate_live_recommendations Map.empty (1 / 2) ?bd)"
    by blast
  with late n show ?thesis by blast
qed

text \<open>
  The learned-model predictor in overtime ends with the tower-damage advice, not with
  the reminder. The simple predictor gives the same list at 30 seconds whichever side
  has more towers, and the same list again in overtime.
\<close>

theorem live_recommendations_counterexample:
  "generate_live_recommendations Map.empty (1 / 2) [''time_remaining'' \<mapsto> 0] =
     [''High-risk, high-reward plays'', ''Focus on tower damage'']
   \<and> last (generate_live_recommendations Map.empty (1 / 2) [''time_remaining'' \<mapsto> 0])
       = ''Focus on tower damage''
   \<and> generate_live_recommendations_simple (1 / 2)
       [''time_remaining'' \<mapsto> 30, ''player_towers'' \<mapsto> 1, ''opponent_towers'' \<mapsto> 3] =
     [''Go for decisive plays'', ''Focus on defense'', ''Watch your elixir management'']
   \<and> generate_live_recommendations_simple (1 / 2)
       [''time_remaining'' \<mapsto> 30, ''player_towers'' \<mapsto> 3, ''opponent_towers'' \<mapsto> 1] =
     [''Go for decisive plays'', ''Focus on defense'', ''Watch your elixir management'']
   \<and> generate_live_recommendations_simple (1 / 2) [''time_remaining'' \<mapsto> 0] =
     [''Go for decisive plays'', ''Focus on defense'', ''Watch your elixir management'']"
proof -
  have "generate_live_recommendations Map.empty (1 / 2) [''time_remaining'' \<mapsto> 0] =
     [''High-risk, high-reward plays'', ''Focus on tower damage'']"
    unfolding generate_live_recommendations_eq by (simp add: dict_get_def)
  then show ?thesis
    by (simp add: generate_live_recommendations_simple_def Let_def dict_get_def)
qed

end
